theory Spec2Isabelle
  imports Complex_Main
begin

section \<open>The relational schema\<close>

text \<open>
  The tables of the first migration, one record per row type. Surrogate primary keys that
  no statement of the program reads (\<open>user_roles.id\<close>, \<open>user_preferences.id\<close>) are left
  out; \<open>tracks.id\<close> is kept, since the client deletes by it. A UUID is a string, a
  timestamp a natural number.
\<close>

type_synonym uuid = string

datatype app_role = Admin | User

record user_roles_row =
  ur_user_id :: uuid
  ur_role :: app_role

text \<open>
  \<open>auth.users\<close> belongs to the identity provider; only the two columns the migrations
  read are modelled. The email column is nullable.
\<close>

record auth_user =
  au_id :: uuid
  au_email :: "string option"

record tracks_row =
  t_id :: uuid
  t_name :: string
  t_file_url :: string
  t_created_by :: uuid
  t_created_at :: nat

text \<open>One entry of the \<open>TrackSettings\<close> interface of the player component.\<close>

record track_setting =
  volume :: int
  enabled :: bool

type_synonym TrackSettings = "string \<rightharpoonup> track_setting"

text \<open>
  \<open>user_preferences.user_id\<close> is \<open>NOT NULL UNIQUE\<close>, so the table is a map from the user
  id to the remaining columns. \<open>track_settings\<close> is a nullable JSONB column.
\<close>

record user_preferences_row =
  track_settings :: "TrackSettings option"
  updated_at :: nat

record database =
  auth_users :: "auth_user list"
  user_roles :: "user_roles_row list"
  tracks :: "tracks_row list"
  user_preferences :: "uuid \<rightharpoonup> user_preferences_row"
  storage_objects :: "string list"

section \<open>The role resolver\<close>

text \<open>
  \<open>has_role\<close> is a single \<open>SELECT EXISTS\<close> over \<open>user_roles\<close>. Its first argument is
  \<open>auth.uid()\<close> in every policy, which is NULL for an anonymous caller; a comparison with
  NULL is never true, so no row matches then.
\<close>

definition has_role :: "user_roles_row list \<Rightarrow> uuid option \<Rightarrow> app_role \<Rightarrow> bool" where
  "has_role rows uid role =
     list_ex (\<lambda>r. Some (ur_user_id r) = uid \<and> ur_role r = role) rows"

section \<open>The admin bootstrap procedure\<close>

text \<open>
  \<open>SELECT id INTO target_user_id FROM auth.users WHERE email = user_email\<close>: the first
  matching row, or NULL when there is none.
\<close>

definition select_id_by_email :: "auth_user list \<Rightarrow> string \<Rightarrow> uuid option" where
  "select_id_by_email users user_email =
     map_option au_id (find (\<lambda>u. au_email u = Some user_email) users)"

definition make_user_admin :: "string \<Rightarrow> database \<Rightarrow> database" where
  "make_user_admin user_email d =
     (case select_id_by_email (auth_users d) user_email of
        None \<Rightarrow> d
      | Some target_user_id \<Rightarrow>
          if \<not> list_ex (\<lambda>r. ur_user_id r = target_user_id \<and> ur_role r = Admin) (user_roles d)
          then d\<lparr>user_roles := user_roles d @ [\<lparr>ur_user_id = target_user_id, ur_role = Admin\<rparr>]\<rparr>
          else d)"

text \<open>The number of rows of \<open>user_roles\<close> holding a given (user, role) pair.\<close>

definition role_rows :: "database \<Rightarrow> uuid \<Rightarrow> app_role \<Rightarrow> nat" where
  "role_rows d uid role =
     length (filter (\<lambda>r. ur_user_id r = uid \<and> ur_role r = role) (user_roles d))"

text \<open>The constraint \<open>UNIQUE (user_id, role)\<close> of \<open>user_roles\<close>.\<close>

definition unique_user_role :: "database \<Rightarrow> bool" where
  "unique_user_role d = distinct (map (\<lambda>r. (ur_user_id r, ur_role r)) (user_roles d))"

section \<open>Statements against the tables, under the row-level policies\<close>

text \<open>
  Each function is one SQL statement as the client library issues it, run for the caller
  \<open>auth.uid()\<close> (None for an anonymous caller). An \<open>Inl\<close> result is a statement that
  failed and changed nothing.

  A policy with \<open>WITH CHECK\<close> (on INSERT) raises an error when the new row fails it. A
  policy with \<open>USING\<close> on DELETE or SELECT hides the rows that fail it from the statement:
  the statement succeeds and touches only the rows that pass.
\<close>

datatype backend_error = NetworkError | RlsViolation | UniqueViolation | ForeignKeyViolation

text \<open>
  \<open>INSERT INTO tracks\<close>, policy "Admins can insert tracks"
  (\<open>WITH CHECK has_role(auth.uid(), 'admin')\<close>), then the primary key, then the foreign
  key of \<open>created_by\<close>.
\<close>

definition insert_tracks :: "uuid option \<Rightarrow> tracks_row \<Rightarrow> database \<Rightarrow> backend_error + database" where
  "insert_tracks caller row d =
     (if \<not> has_role (user_roles d) caller Admin then Inl RlsViolation
      else if t_id row \<in> set (map t_id (tracks d)) then Inl UniqueViolation
      else if t_created_by row \<notin> set (map au_id (auth_users d)) then Inl ForeignKeyViolation
      else Inr (d\<lparr>tracks := tracks d @ [row]\<rparr>))"

text \<open>
  \<open>DELETE FROM tracks WHERE id = tid\<close>, policy "Admins can delete tracks"
  (\<open>USING has_role(auth.uid(), 'admin')\<close>): the rows deleted are those that match the
  filter and pass the policy. No other table refers to \<open>tracks\<close>, so nothing cascades.
\<close>

definition delete_from_tracks :: "uuid option \<Rightarrow> uuid \<Rightarrow> database \<Rightarrow> database" where
  "delete_from_tracks caller tid d =
     d\<lparr>tracks := filter (\<lambda>r. \<not> (t_id r = tid \<and> has_role (user_roles d) caller Admin)) (tracks d)\<rparr>"

text \<open>
  \<open>SELECT * FROM tracks ORDER BY created_at ASC\<close>, policy "Tracks are viewable by
  everyone".
\<close>

definition select_tracks :: "database \<Rightarrow> tracks_row list" where
  "select_tracks d = sort_key t_created_at (tracks d)"

text \<open>
  \<open>SELECT track_settings FROM user_preferences WHERE user_id = uid\<close> with \<open>maybeSingle\<close>,
  policy "Users can view their own preferences" (\<open>USING auth.uid() = user_id\<close>). The
  result is None when no visible row matches, and the column value (itself nullable)
  otherwise.
\<close>

definition select_track_settings :: "uuid option \<Rightarrow> uuid \<Rightarrow> database \<Rightarrow> TrackSettings option option" where
  "select_track_settings caller uid d =
     (if caller = Some uid then map_option track_settings (user_preferences d uid) else None)"

text \<open>
  \<open>INSERT INTO user_preferences (user_id, track_settings, updated_at) ... ON CONFLICT
  (user_id) DO UPDATE\<close>, policies "Users can insert their own preferences" and "Users can
  update their own preferences" (both \<open>auth.uid() = user_id\<close>). A new row needs its user
  in \<open>auth.users\<close>.
\<close>

definition upsert_user_preferences ::
  "uuid option \<Rightarrow> uuid \<Rightarrow> TrackSettings \<Rightarrow> nat \<Rightarrow> database \<Rightarrow> backend_error + database" where
  "upsert_user_preferences caller uid newSettings now d =
     (if caller \<noteq> Some uid then Inl RlsViolation
      else if user_preferences d uid = None \<and> uid \<notin> set (map au_id (auth_users d))
        then Inl ForeignKeyViolation
      else Inr (d\<lparr>user_preferences :=
                   (user_preferences d)(uid \<mapsto> \<lparr>track_settings = Some newSettings, updated_at = now\<rparr>)\<rparr>))"

text \<open>
  An upload into the bucket \<open>tracks\<close>, policy "Admins can upload tracks"
  (\<open>WITH CHECK bucket_id = 'tracks' AND has_role(auth.uid(), 'admin')\<close>). The bucket is
  the list of its object names; an upload does not overwrite.
\<close>

definition storage_upload :: "uuid option \<Rightarrow> string \<Rightarrow> database \<Rightarrow> backend_error + database" where
  "storage_upload caller fileName d =
     (if \<not> has_role (user_roles d) caller Admin then Inl RlsViolation
      else if fileName \<in> set (storage_objects d) then Inl UniqueViolation
      else Inr (d\<lparr>storage_objects := storage_objects d @ [fileName]\<rparr>))"

section \<open>The player component\<close>

text \<open>
  The world the component \<open>AmbiencePlayer\<close> runs in: the backend (\<open>db\<close>, and whether it can
  be reached), the signed-in user of the client session (\<open>user\<close> of the hook \<open>useAuth\<close>,
  which is also \<open>auth.uid()\<close> of every request), the clock, the component's own state
  (\<open>tracks\<close>, \<open>trackSettings\<close>, \<open>loading\<close>), and what it emits: the requests sent to the
  backend, the lines written with \<open>console.error\<close>, and the toasts shown.
\<close>

datatype request =
    SelectTracks
  | SelectPreferences uuid
  | UpsertPreferences uuid
  | DeleteTrack uuid
  | InsertTrack

datatype toast_variant = Default | Destructive

record toast =
  title :: string
  description :: string
  variant :: toast_variant

record world =
  db :: database
  online :: bool
  session :: "uuid option"
  clock :: nat
  tracks_state :: "tracks_row list"
  trackSettings :: TrackSettings
  loading :: bool
  requests :: "request list"
  console :: "string list"
  toasts :: "toast list"

definition sent :: "request \<Rightarrow> world \<Rightarrow> world" where
  "sent r w = w\<lparr>requests := requests w @ [r]\<rparr>"

definition console_error :: "string \<Rightarrow> world \<Rightarrow> world" where
  "console_error msg w = w\<lparr>console := console w @ [msg]\<rparr>"

definition show_toast :: "string \<Rightarrow> string \<Rightarrow> toast_variant \<Rightarrow> world \<Rightarrow> world" where
  "show_toast t d v w = w\<lparr>toasts := toasts w @ [\<lparr>title = t, description = d, variant = v\<rparr>]\<rparr>"

definition fetchTracks :: "world \<Rightarrow> world" where
  "fetchTracks w0 =
     (let w = sent SelectTracks w0 in
      if \<not> online w then
        show_toast ''Error'' ''Failed to load tracks.'' Destructive
          (console_error ''Error fetching tracks:'' w)
      else w\<lparr>tracks_state := select_tracks (db w), loading := False\<rparr>)"

definition fetchPreferences :: "world \<Rightarrow> world" where
  "fetchPreferences w0 =
     (case session w0 of
        None \<Rightarrow> w0
      | Some uid \<Rightarrow>
          (let w = sent (SelectPreferences uid) w0 in
           if \<not> online w then console_error ''Error fetching preferences:'' w
           else (case select_track_settings (session w) uid (db w) of
                   Some (Some ts) \<Rightarrow> w\<lparr>trackSettings := ts\<rparr>
                 | _ \<Rightarrow> w)))"

definition savePreferences :: "TrackSettings \<Rightarrow> world \<Rightarrow> world" where
  "savePreferences newSettings w0 =
     (case session w0 of
        None \<Rightarrow> w0
      | Some uid \<Rightarrow>
          (let w = sent (UpsertPreferences uid) w0 in
           if \<not> online w then console_error ''Error saving preferences:'' w
           else (case upsert_user_preferences (session w) uid newSettings (clock w) (db w) of
                   Inl e \<Rightarrow> console_error ''Error saving preferences:'' w
                 | Inr d \<Rightarrow> w\<lparr>db := d\<rparr>)))"

text \<open>
  \<open>{ ...prev, [id]: { ...prev[id], volume, enabled: prev[id]?.enabled ?? true } }\<close>: both
  fields of the entry are written after the spread of the old entry.
\<close>

definition merge_volume :: "TrackSettings \<Rightarrow> string \<Rightarrow> int \<Rightarrow> TrackSettings" where
  "merge_volume prev tid v =
     prev(tid \<mapsto> \<lparr>volume = v, enabled = (case prev tid of None \<Rightarrow> True | Some e \<Rightarrow> enabled e)\<rparr>)"

definition merge_enabled :: "TrackSettings \<Rightarrow> string \<Rightarrow> bool \<Rightarrow> TrackSettings" where
  "merge_enabled prev tid b =
     prev(tid \<mapsto> \<lparr>volume = (case prev tid of None \<Rightarrow> 50 | Some e \<Rightarrow> volume e), enabled = b\<rparr>)"

definition handleVolumeChange :: "string \<Rightarrow> int \<Rightarrow> world \<Rightarrow> world" where
  "handleVolumeChange tid v w =
     (let newSettings = merge_volume (trackSettings w) tid v
      in (savePreferences newSettings w)\<lparr>trackSettings := newSettings\<rparr>)"

definition handleEnabledChange :: "string \<Rightarrow> bool \<Rightarrow> world \<Rightarrow> world" where
  "handleEnabledChange tid b w =
     (let newSettings = merge_enabled (trackSettings w) tid b
      in (savePreferences newSettings w)\<lparr>trackSettings := newSettings\<rparr>)"

text \<open>
  The insert into \<open>tracks\<close> that \<open>handleUpload\<close> of the uploader sends, as a request of
  its own: the result is the \<open>error\<close> field of the response. The row carries the id and
  the creation time the table generates.
\<close>

definition request_insert_track :: "tracks_row \<Rightarrow> world \<Rightarrow> backend_error option \<times> world" where
  "request_insert_track row w0 =
     (let w = sent InsertTrack w0 in
      if \<not> online w then (Some NetworkError, w)
      else (case insert_tracks (session w) row (db w) of
              Inl e \<Rightarrow> (Some e, w)
            | Inr d \<Rightarrow> (None, w\<lparr>db := d\<rparr>)))"

text \<open>The delete request of \<open>handleDeleteTrack\<close>, with the \<open>error\<close> field of its response.\<close>

definition request_delete_track :: "uuid \<Rightarrow> world \<Rightarrow> backend_error option \<times> world" where
  "request_delete_track tid w0 =
     (let w = sent (DeleteTrack tid) w0 in
      if \<not> online w then (Some NetworkError, w)
      else (None, w\<lparr>db := delete_from_tracks (session w) tid (db w)\<rparr>))"

definition handleDeleteTrack :: "uuid \<Rightarrow> world \<Rightarrow> world" where
  "handleDeleteTrack tid w0 =
     (case request_delete_track tid w0 of
        (Some e, w) \<Rightarrow>
          show_toast ''Error'' ''Failed to delete track.'' Destructive
            (console_error ''Delete error:'' w)
      | (None, w) \<Rightarrow>
          fetchTracks (show_toast ''Track deleted'' ''The track has been removed.'' Default w))"

subsection \<open>Rendering\<close>

text \<open>
  The props the player passes to each \<open>AudioTrack\<close>. \<open>isAdmin\<close> comes from the hook
  \<open>useAuth\<close> and is a parameter here.
\<close>

record AudioTrackProps =
  p_id :: string
  p_name :: string
  p_fileUrl :: string
  initialVolume :: int
  initialEnabled :: bool
  canDelete :: bool

definition track_props :: "bool \<Rightarrow> TrackSettings \<Rightarrow> tracks_row \<Rightarrow> AudioTrackProps" where
  "track_props isAdmin settings track =
     \<lparr>p_id = t_id track, p_name = t_name track, p_fileUrl = t_file_url track,
      initialVolume = (case settings (t_id track) of None \<Rightarrow> 50 | Some e \<Rightarrow> volume e),
      initialEnabled = (case settings (t_id track) of None \<Rightarrow> False | Some e \<Rightarrow> enabled e),
      canDelete = isAdmin\<rparr>"

definition AmbiencePlayer :: "bool \<Rightarrow> world \<Rightarrow> AudioTrackProps list" where
  "AmbiencePlayer isAdmin w =
     (if loading w then [] else map (track_props isAdmin (trackSettings w)) (tracks_state w))"

subsection \<open>Events of the player\<close>






text \<open>Whether the stored preference document of a user has a key for a track.\<close>

definition stored_key :: "database \<Rightarrow> uuid \<Rightarrow> string \<Rightarrow> bool" where
  "stored_key d uid tid =
     (case user_preferences d uid of
        None \<Rightarrow> False
      | Some row \<Rightarrow> (case track_settings row of None \<Rightarrow> False | Some m \<Rightarrow> m tid \<noteq> None))"

section \<open>The track control\<close>























section \<open>The state of a track that was never touched\<close>


section \<open>Concrete data\<close>

definition db0 :: database where
  "db0 = \<lparr>auth_users = [\<lparr>au_id = ''u1'', au_email = Some ''ann@example.org''\<rparr>,
                         \<lparr>au_id = ''u2'', au_email = Some ''bob@example.org''\<rparr>],
          user_roles = [\<lparr>ur_user_id = ''u1'', ur_role = User\<rparr>,
                         \<lparr>ur_user_id = ''u2'', ur_role = User\<rparr>,
                         \<lparr>ur_user_id = ''u2'', ur_role = Admin\<rparr>],
          tracks = [\<lparr>t_id = ''t1'', t_name = ''Rain'',
                      t_file_url = ''https://project.supabase.co/storage/v1/object/public/tracks/1-abc.mp3'',
                      t_created_by = ''u2'', t_created_at = 5\<rparr>],
          user_preferences = [''u1'' \<mapsto> \<lparr>track_settings = Some Map.empty, updated_at = 1\<rparr>,
                               ''u2'' \<mapsto> \<lparr>track_settings = Some Map.empty, updated_at = 2\<rparr>],
          storage_objects = [''1-abc.mp3'']\<rparr>"

definition u1 :: auth_user where
  "u1 = \<lparr>au_id = ''u1'', au_email = Some ''ann@example.org''\<rparr>"

text \<open>
  Three worlds over \<open>db0\<close>: the admin \<open>u2\<close> is signed in, the plain user \<open>u1\<close> is signed
  in, nobody is signed in.
\<close>

definition w_admin :: world where
  "w_admin = \<lparr>db = db0, online = True, session = Some ''u2'', clock = 10,
              tracks_state = tracks db0, trackSettings = Map.empty, loading = False,
              requests = [], console = [], toasts = []\<rparr>"

definition w_user :: world where
  "w_user = w_admin\<lparr>session := Some ''u1''\<rparr>"

definition w_anon :: world where
  "w_anon = w_admin\<lparr>session := None\<rparr>"

text \<open>
  The user \<open>u1\<close> has set the track \<open>t1\<close> to volume 30, enabled; the admin is signed in.
\<close>

definition db1 :: database where
  "db1 = db0\<lparr>user_preferences := (user_preferences db0)
           (''u1'' \<mapsto> \<lparr>track_settings = Some [''t1'' \<mapsto> \<lparr>volume = 30, enabled = True\<rparr>],
                       updated_at = 7\<rparr>)\<rparr>"

definition w_admin1 :: world where
  "w_admin1 = w_admin\<lparr>db := db1\<rparr>"



section \<open>Properties of the role resolver\<close>

lemma has_role_iff:
  "has_role rows (Some u) role \<longleftrightarrow> (\<exists>r \<in> set rows. ur_user_id r = u \<and> ur_role r = role)"
  by (auto simp: has_role_def list_ex_iff)

lemma has_role_None: "\<not> has_role rows None role"
  by (simp add: has_role_def list_ex_iff)

text \<open>
  Claim C5. For every user id and role, \<open>has_role\<close> is true exactly when a row of
  \<open>user_roles\<close> holds that (user, role) pair; for a user id that no row mentions it is
  false. The function is a total boolean function of the table: it has no error result
  and returns no changed table.
\<close>

theorem has_role_exact:
  "(has_role (user_roles d) (Some u) role
      \<longleftrightarrow> (\<exists>r \<in> set (user_roles d). ur_user_id r = u \<and> ur_role r = role))
   \<and> (u \<notin> ur_user_id ` set (user_roles d) \<longrightarrow> has_role (user_roles d) (Some u) role = False)"
  by (auto simp: has_role_iff)

theorem has_role_exact_witness:
  "''u9'' \<notin> ur_user_id ` set (user_roles db0)
   \<and> has_role (user_roles db0) (Some ''u9'') Admin = False
   \<and> has_role (user_roles db0) (Some ''u2'') Admin
   \<and> \<not> has_role (user_roles db0) (Some ''u1'') Admin"
  using has_role_exact [of db0 "''u9''" Admin] has_role_exact [of db0 "''u2''" Admin]
    has_role_exact [of db0 "''u1''" Admin]
  by (simp add: db0_def)

section \<open>The admin bootstrap is idempotent\<close>

lemma filter_key_le_one:
  "distinct (map f xs) \<Longrightarrow> length (filter (\<lambda>r. f r = k) xs) \<le> Suc 0"
proof (induction xs)
  case Nil
  then show ?case by simp
next
  case (Cons x xs)
  show ?case
  proof (cases "f x = k")
    case True
    with Cons.prems have "\<forall>r \<in> set xs. f r \<noteq> k" by (auto simp: image_iff)
    then have "filter (\<lambda>r. f r = k) xs = []" by (simp add: filter_empty_conv)
    with True show ?thesis by simp
  next
    case False
    with Cons show ?thesis by simp
  qed
qed

lemma role_rows_le_one:
  assumes "unique_user_role d"
  shows "role_rows d uid role \<le> Suc 0"
proof -
  from assms
  have "length (filter (\<lambda>r. (ur_user_id r, ur_role r) = (uid, role)) (user_roles d)) \<le> Suc 0"
    unfolding unique_user_role_def by (rule filter_key_le_one)
  then show ?thesis by (simp add: role_rows_def)
qed

lemma role_rows_pos_iff:
  "0 < role_rows d uid role
     \<longleftrightarrow> list_ex (\<lambda>r. ur_user_id r = uid \<and> ur_role r = role) (user_roles d)"
  by (auto simp: role_rows_def list_ex_iff filter_empty_conv length_greater_0_conv
      simp del: length_greater_0_conv)

text \<open>When the email identifies one user, the lookup finds that user.\<close>

lemma select_id_by_email_unique:
  assumes "u \<in> set users" "au_email u = Some e"
    and "\<forall>v \<in> set users. au_email v = Some e \<longrightarrow> au_id v = au_id u"
  shows "select_id_by_email users e = Some (au_id u)"
proof (cases "find (\<lambda>v. au_email v = Some e) users")
  case None
  with assms(1,2) show ?thesis by (auto simp: find_None_iff)
next
  case (Some v)
  then have "v \<in> set users \<and> au_email v = Some e"
    by (auto simp: find_Some_iff)
  with assms(3) Some show ?thesis by (simp add: select_id_by_email_def)
qed

lemma make_user_admin_found:
  assumes "select_id_by_email (auth_users d) e = Some uid"
  shows "make_user_admin e d =
     (if 0 < role_rows d uid Admin then d
      else d\<lparr>user_roles := user_roles d @ [\<lparr>ur_user_id = uid, ur_role = Admin\<rparr>]\<rparr>)"
  using assms by (simp add: make_user_admin_def role_rows_pos_iff)

lemma make_user_admin_auth_users [simp]: "auth_users (make_user_admin e d) = auth_users d"
  by (simp add: make_user_admin_def split: option.splits)

lemma make_user_admin_rows:
  assumes "select_id_by_email (auth_users d) e = Some uid" "unique_user_role d"
  shows "role_rows (make_user_admin e d) uid Admin = 1"
proof (cases "0 < role_rows d uid Admin")
  case True
  with role_rows_le_one [OF assms(2), of uid Admin] have "role_rows d uid Admin = 1" by simp
  with True assms(1) show ?thesis by (simp add: make_user_admin_found)
next
  case False
  then have "role_rows d uid Admin = 0" by simp
  with assms(1) show ?thesis by (simp add: make_user_admin_found) (simp add: role_rows_def)
qed

text \<open>
  Claim C4. For an existing user \<open>u\<close> whose email \<open>e\<close> identifies them among the users, and
  a \<open>user_roles\<close> table that satisfies its constraint \<open>UNIQUE (user_id, role)\<close>, calling
  \<open>make_user_admin e\<close> twice leaves exactly one (\<open>u\<close>, admin) row, and the second call
  changes nothing.
\<close>

theorem make_user_admin_idempotent:
  assumes "u \<in> set (auth_users d)" and "au_email u = Some e"
    and "\<forall>v \<in> set (auth_users d). au_email v = Some e \<longrightarrow> au_id v = au_id u"
    and "unique_user_role d"
  shows "role_rows (make_user_admin e (make_user_admin e d)) (au_id u) Admin = 1
       \<and> make_user_admin e (make_user_admin e d) = make_user_admin e d"
proof -
  have sel: "select_id_by_email (auth_users d) e = Some (au_id u)"
    using assms(1-3) by (rule select_id_by_email_unique)
  have one: "role_rows (make_user_admin e d) (au_id u) Admin = 1"
    using sel assms(4) by (rule make_user_admin_rows)
  have sel': "select_id_by_email (auth_users (make_user_admin e d)) e = Some (au_id u)"
    using sel by simp
  have same: "make_user_admin e (make_user_admin e d) = make_user_admin e d"
    using one by (simp add: make_user_admin_found [OF sel'])
  from one same show ?thesis by simp
qed

theorem make_user_admin_idempotent_witness:
  "u1 \<in> set (auth_users db0) \<and> au_email u1 = Some ''ann@example.org''
   \<and> distinct (map au_email (auth_users db0))
   \<and> unique_user_role db0
   \<and> role_rows db0 ''u1'' Admin = 0
   \<and> role_rows (make_user_admin ''ann@example.org'' (make_user_admin ''ann@example.org'' db0))
        (au_id u1) Admin = 1
   \<and> make_user_admin ''ann@example.org'' (make_user_admin ''ann@example.org'' db0)
       = make_user_admin ''ann@example.org'' db0"
proof -
  have h1: "u1 \<in> set (auth_users db0)" by (simp add: db0_def u1_def)
  have h2: "au_email u1 = Some ''ann@example.org''" by (simp add: u1_def)
  have h3: "\<forall>v \<in> set (auth_users db0). au_email v = Some ''ann@example.org'' \<longrightarrow> au_id v = au_id u1"
    by (simp add: db0_def u1_def)
  have h4: "unique_user_role db0" by (simp add: unique_user_role_def db0_def)
  have h5: "role_rows db0 ''u1'' Admin = 0" by (simp add: role_rows_def db0_def)
  have h6: "distinct (map au_email (auth_users db0))" by (simp add: db0_def)
  from make_user_admin_idempotent [OF h1 h2 h3 h4] h1 h2 h4 h5 h6 show ?thesis by blast
qed

section \<open>The preference store\<close>

lemma sent_simps [simp]:
  "db (sent r w) = db w" "online (sent r w) = online w" "session (sent r w) = session w"
  "clock (sent r w) = clock w" "trackSettings (sent r w) = trackSettings w"
  "tracks_state (sent r w) = tracks_state w" "loading (sent r w) = loading w"
  by (simp_all add: sent_def)

lemma savePreferences_db:
  assumes "session w = Some uid" "online w" "uid \<in> set (map au_id (auth_users (db w)))"
  shows "db (savePreferences m w) =
    (db w)\<lparr>user_preferences :=
      (user_preferences (db w))(uid \<mapsto> \<lparr>track_settings = Some m, updated_at = clock w\<rparr>)\<rparr>"
  using assms by (simp add: savePreferences_def upsert_user_preferences_def Let_def)

lemma savePreferences_frame [simp]:
  "session (savePreferences m w) = session w" "online (savePreferences m w) = online w"
  "trackSettings (savePreferences m w) = trackSettings w"
  "tracks_state (savePreferences m w) = tracks_state w"
  "loading (savePreferences m w) = loading w"
  by (simp_all add: savePreferences_def console_error_def Let_def split: option.splits sum.splits)

lemma fetchPreferences_loaded:
  assumes "session w = Some uid" "online w"
    and "user_preferences (db w) uid = Some row" "track_settings row = Some m"
  shows "trackSettings (fetchPreferences w) = m"
  using assms by (simp add: fetchPreferences_def select_track_settings_def Let_def)

text \<open>
  Claim C3. For a signed-in user that exists in \<open>auth.users\<close>, a reachable backend and any
  settings map \<open>m\<close>: \<open>savePreferences m\<close> followed directly by \<open>fetchPreferences\<close> leaves
  the component holding a map equal to \<open>m\<close>, and the stored document is \<open>m\<close>.
\<close>

theorem save_then_fetch:
  assumes "session w = Some uid" "online w" "uid \<in> set (map au_id (auth_users (db w)))"
  shows "trackSettings (fetchPreferences (savePreferences m w)) = m
       \<and> select_track_settings (Some uid) uid (db (savePreferences m w)) = Some (Some m)"
proof -
  let ?w = "savePreferences m w"
  have row: "user_preferences (db ?w) uid = Some \<lparr>track_settings = Some m, updated_at = clock w\<rparr>"
    by (simp add: savePreferences_db [OF assms])
  moreover have "session ?w = Some uid" "online ?w" using assms by simp_all
  ultimately have "trackSettings (fetchPreferences ?w) = m"
    by (simp add: fetchPreferences_loaded)
  moreover from row have "select_track_settings (Some uid) uid (db ?w) = Some (Some m)"
    by (simp add: select_track_settings_def)
  ultimately show ?thesis by simp
qed

theorem save_then_fetch_witness:
  "session w_user = Some ''u1'' \<and> online w_user
   \<and> ''u1'' \<in> set (map au_id (auth_users (db w_user)))
   \<and> trackSettings (fetchPreferences
        (savePreferences [''t1'' \<mapsto> \<lparr>volume = 30, enabled = True\<rparr>] w_user))
       = [''t1'' \<mapsto> \<lparr>volume = 30, enabled = True\<rparr>]"
  using save_then_fetch [of w_user "''u1''" "[''t1'' \<mapsto> \<lparr>volume = 30, enabled = True\<rparr>]"]
  by (simp add: w_user_def w_admin_def db0_def)

text \<open>
  Claim C10. With no signed-in user, \<open>savePreferences\<close> returns the world as it was: no
  request is sent, the stored preferences are the same, nothing is logged and no toast is
  shown. \<open>fetchPreferences\<close> likewise sends no request and changes nothing.
\<close>

theorem no_session_no_effect:
  assumes "session w = None"
  shows "savePreferences m w = w \<and> fetchPreferences w = w"
  using assms by (simp add: savePreferences_def fetchPreferences_def)

theorem no_session_no_effect_witness:
  "session w_anon = None
   \<and> savePreferences [''t1'' \<mapsto> \<lparr>volume = 30, enabled = True\<rparr>] w_anon = w_anon
   \<and> fetchPreferences w_anon = w_anon"
  using no_session_no_effect [of w_anon "[''t1'' \<mapsto> \<lparr>volume = 30, enabled = True\<rparr>]"]
  by (simp add: w_anon_def w_admin_def)

section \<open>Frame lemmas of the player\<close>

lemma show_toast_simps [simp]:
  "db (show_toast t d v w) = db w" "online (show_toast t d v w) = online w"
  "session (show_toast t d v w) = session w" "trackSettings (show_toast t d v w) = trackSettings w"
  "tracks_state (show_toast t d v w) = tracks_state w" "loading (show_toast t d v w) = loading w"
  by (simp_all add: show_toast_def)

lemma console_error_simps [simp]:
  "db (console_error s w) = db w" "online (console_error s w) = online w"
  "session (console_error s w) = session w" "trackSettings (console_error s w) = trackSettings w"
  "tracks_state (console_error s w) = tracks_state w" "loading (console_error s w) = loading w"
  by (simp_all add: console_error_def)

lemma fetchTracks_frame [simp]:
  "db (fetchTracks w) = db w" "session (fetchTracks w) = session w"
  "online (fetchTracks w) = online w" "trackSettings (fetchTracks w) = trackSettings w"
  by (simp_all add: fetchTracks_def Let_def)

lemma fetchTracks_online:
  "online w \<Longrightarrow> tracks_state (fetchTracks w) = select_tracks (db w) \<and> \<not> loading (fetchTracks w)"
  by (simp add: fetchTracks_def Let_def)

lemma fetchPreferences_frame [simp]:
  "db (fetchPreferences w) = db w" "session (fetchPreferences w) = session w"
  by (simp_all add: fetchPreferences_def Let_def split: option.splits)

lemma delete_from_tracks_frame [simp]:
  "user_preferences (delete_from_tracks c tid d) = user_preferences d"
  "storage_objects (delete_from_tracks c tid d) = storage_objects d"
  "user_roles (delete_from_tracks c tid d) = user_roles d"
  "auth_users (delete_from_tracks c tid d) = auth_users d"
  by (simp_all add: delete_from_tracks_def)

lemma delete_from_tracks_admin:
  "has_role (user_roles d) c Admin \<Longrightarrow>
     tracks (delete_from_tracks c tid d) = filter (\<lambda>r. t_id r \<noteq> tid) (tracks d)"
  by (simp add: delete_from_tracks_def)

lemma delete_from_tracks_non_admin:
  "\<not> has_role (user_roles d) c Admin \<Longrightarrow> delete_from_tracks c tid d = d"
  by (simp add: delete_from_tracks_def)

lemma handleDeleteTrack_db:
  "db (handleDeleteTrack tid w) =
     (if online w then delete_from_tracks (session w) tid (db w) else db w)"
  by (simp add: handleDeleteTrack_def request_delete_track_def Let_def)

lemma handleDeleteTrack_frame [simp]:
  "trackSettings (handleDeleteTrack tid w) = trackSettings w"
  "session (handleDeleteTrack tid w) = session w"
  "online (handleDeleteTrack tid w) = online w"
  by (simp_all add: handleDeleteTrack_def request_delete_track_def Let_def)

lemma handleDeleteTrack_tracks_state:
  assumes "online w"
  shows "tracks_state (handleDeleteTrack tid w) = select_tracks (db (handleDeleteTrack tid w))
       \<and> \<not> loading (handleDeleteTrack tid w)"
  using assms
  by (simp add: handleDeleteTrack_def request_delete_track_def Let_def fetchTracks_online)

lemma handle_change_frame [simp]:
  "session (handleVolumeChange tid v w) = session w"
  "session (handleEnabledChange tid b w) = session w"
  "trackSettings (handleVolumeChange tid v w) = merge_volume (trackSettings w) tid v"
  "trackSettings (handleEnabledChange tid b w) = merge_enabled (trackSettings w) tid b"
  "db (handleVolumeChange tid v w) = db (savePreferences (merge_volume (trackSettings w) tid v) w)"
  "db (handleEnabledChange tid b w) = db (savePreferences (merge_enabled (trackSettings w) tid b) w)"
  by (simp_all add: handleVolumeChange_def handleEnabledChange_def Let_def)

lemma stored_after_save:
  assumes "session w = Some uid" "online w" "uid \<in> set (map au_id (auth_users (db w)))"
  shows "select_track_settings (Some uid) uid (db (savePreferences m w)) = Some (Some m)"
  by (simp add: savePreferences_db [OF assms] select_track_settings_def)

lemma AmbiencePlayer_ids:
  "map p_id (AmbiencePlayer isAdmin w) = (if loading w then [] else map t_id (tracks_state w))"
  by (simp add: AmbiencePlayer_def track_props_def)

lemma AmbiencePlayer_orphan:
  assumes "k \<notin> set (map t_id (tracks_state w))"
  shows "AmbiencePlayer isAdmin (w\<lparr>trackSettings := (trackSettings w)(k := x)\<rparr>)
       = AmbiencePlayer isAdmin w"
  using assms by (auto simp: AmbiencePlayer_def track_props_def)


section \<open>Deleting a track\<close>

text \<open>
  Claim C1, as the code has it. When an admin is signed in and the backend is reachable,
  \<open>handleDeleteTrack\<close> removes the row with the given id from \<open>tracks\<close> and no other
  row; the storage bucket is left as it was, the audio object included.
\<close>

theorem handleDeleteTrack_row_only:
  assumes "online w" and "has_role (user_roles (db w)) (session w) Admin"
  shows "tracks (db (handleDeleteTrack tid w)) = filter (\<lambda>r. t_id r \<noteq> tid) (tracks (db w))
       \<and> tid \<notin> set (map t_id (tracks (db (handleDeleteTrack tid w))))
       \<and> storage_objects (db (handleDeleteTrack tid w)) = storage_objects (db w)"
  using assms by (auto simp: handleDeleteTrack_db delete_from_tracks_admin)

theorem handleDeleteTrack_row_only_witness:
  "online w_admin \<and> has_role (user_roles (db w_admin)) (session w_admin) Admin
   \<and> tracks (db (handleDeleteTrack ''t1'' w_admin)) = []
   \<and> storage_objects (db (handleDeleteTrack ''t1'' w_admin)) = [''1-abc.mp3'']"
proof -
  have h1: "online w_admin" by (simp add: w_admin_def)
  have h2: "has_role (user_roles (db w_admin)) (session w_admin) Admin"
    by (simp add: w_admin_def db0_def has_role_def)
  have "filter (\<lambda>r. t_id r \<noteq> ''t1'') (tracks (db w_admin)) = []"
    by (simp add: w_admin_def db0_def)
  moreover have "storage_objects (db w_admin) = [''1-abc.mp3'']"
    by (simp add: w_admin_def db0_def)
  ultimately show ?thesis
    using handleDeleteTrack_row_only [OF h1 h2, of "''t1''"] h1 h2 by simp
qed

text \<open>
  Claim C1 as stated fails: the admin deletes the track \<open>t1\<close>, whose file is the object
  \<open>1-abc.mp3\<close> of the bucket. The row goes, the object stays.
\<close>

theorem handleDeleteTrack_keeps_object:
  "t_file_url (hd (tracks (db w_admin)))
     = ''https://project.supabase.co/storage/v1/object/public/tracks/1-abc.mp3''
   \<and> \<not> (''t1'' \<notin> set (map t_id (tracks (db (handleDeleteTrack ''t1'' w_admin))))
        \<and> ''1-abc.mp3'' \<notin> set (storage_objects (db (handleDeleteTrack ''t1'' w_admin))))"
  by (simp add: handleDeleteTrack_db w_admin_def db0_def)

text \<open>
  Claim C9. \<open>handleDeleteTrack\<close> leaves the preference document of every user as it was,
  so a key for the deleted track stays in a stored map that had it; the map the component
  holds is unchanged too. The reader renders one control per track of the library and
  nothing else: after an admin's delete there is no control for the deleted id, and an
  entry for an id outside the library changes nothing of what is rendered.
\<close>

theorem delete_no_cascade:
  "user_preferences (db (handleDeleteTrack tid w)) = user_preferences (db w)
   \<and> (stored_key (db w) uid tid \<longrightarrow> stored_key (db (handleDeleteTrack tid w)) uid tid)
   \<and> trackSettings (handleDeleteTrack tid w) = trackSettings w
   \<and> (online w \<and> has_role (user_roles (db w)) (session w) Admin
        \<longrightarrow> tid \<notin> set (map p_id (AmbiencePlayer isAdmin (handleDeleteTrack tid w))))
   \<and> (k \<notin> set (map t_id (tracks_state w))
        \<longrightarrow> AmbiencePlayer isAdmin (w\<lparr>trackSettings := (trackSettings w)(k := x)\<rparr>)
            = AmbiencePlayer isAdmin w)"
proof -
  have prefs: "user_preferences (db (handleDeleteTrack tid w)) = user_preferences (db w)"
    by (simp add: handleDeleteTrack_db)
  then have key: "stored_key (db (handleDeleteTrack tid w)) uid tid = stored_key (db w) uid tid"
    by (simp add: stored_key_def)
  have gone: "tid \<notin> set (map p_id (AmbiencePlayer isAdmin (handleDeleteTrack tid w)))"
    if "online w" "has_role (user_roles (db w)) (session w) Admin"
  proof -
    have "set (map t_id (tracks_state (handleDeleteTrack tid w)))
        = set (map t_id (filter (\<lambda>r. t_id r \<noteq> tid) (tracks (db w))))"
      using that
      by (simp add: handleDeleteTrack_tracks_state select_tracks_def handleDeleteTrack_db
          delete_from_tracks_admin)
    then show ?thesis by (auto simp: AmbiencePlayer_ids)
  qed
  from prefs key gone show ?thesis by (simp add: AmbiencePlayer_orphan)
qed

theorem delete_no_cascade_witness:
  "stored_key (db w_admin1) ''u1'' ''t1''
   \<and> stored_key (db (handleDeleteTrack ''t1'' w_admin1)) ''u1'' ''t1''
   \<and> user_preferences (db (handleDeleteTrack ''t1'' w_admin1)) = user_preferences (db w_admin1)
   \<and> online w_admin1 \<and> has_role (user_roles (db w_admin1)) (session w_admin1) Admin
   \<and> ''t1'' \<notin> set (map p_id (AmbiencePlayer True (handleDeleteTrack ''t1'' w_admin1)))
   \<and> ''t9'' \<notin> set (map t_id (tracks_state w_admin1))
   \<and> AmbiencePlayer True
        (w_admin1\<lparr>trackSettings := (trackSettings w_admin1)(''t9'' := Some \<lparr>volume = 5, enabled = True\<rparr>)\<rparr>)
      = AmbiencePlayer True w_admin1"
proof -
  have h1: "stored_key (db w_admin1) ''u1'' ''t1''"
    by (simp add: w_admin1_def w_admin_def db1_def db0_def stored_key_def)
  have h2: "online w_admin1 \<and> has_role (user_roles (db w_admin1)) (session w_admin1) Admin"
    by (simp add: w_admin1_def w_admin_def db1_def db0_def has_role_def)
  have h3: "''t9'' \<notin> set (map t_id (tracks_state w_admin1))"
    by (simp add: w_admin1_def w_admin_def db0_def)
  from delete_no_cascade [of "''t1''" w_admin1 "''u1''" True "''t9''"
      "Some \<lparr>volume = 5, enabled = True\<rparr>"] h1 h2 h3
  show ?thesis by blast
qed

section \<open>Callers without the admin role\<close>

text \<open>
  Claim C2, as the code has it. For a caller without the admin role and a reachable
  backend: the insert into \<open>tracks\<close> fails with the policy violation and changes nothing;
  the delete from \<open>tracks\<close> reports no error, removes no row and changes nothing.
\<close>

theorem non_admin_create_delete:
  assumes "\<not> has_role (user_roles (db w)) (session w) Admin" and "online w"
  shows "fst (request_insert_track row w) = Some RlsViolation
       \<and> db (snd (request_insert_track row w)) = db w
       \<and> fst (request_delete_track tid w) = None
       \<and> db (snd (request_delete_track tid w)) = db w"
  using assms
  by (simp add: request_insert_track_def request_delete_track_def insert_tracks_def
      delete_from_tracks_non_admin Let_def)

theorem non_admin_create_delete_witness:
  "\<not> has_role (user_roles (db w_user)) (session w_user) Admin \<and> online w_user
   \<and> fst (request_insert_track
        \<lparr>t_id = ''t2'', t_name = ''Wind'', t_file_url =
           ''https://project.supabase.co/storage/v1/object/public/tracks/2-xyz.mp3'',
         t_created_by = ''u1'', t_created_at = 11\<rparr> w_user) = Some RlsViolation
   \<and> db (snd (request_delete_track ''t1'' w_user)) = db w_user"
proof -
  have h1: "\<not> has_role (user_roles (db w_user)) (session w_user) Admin"
    by (simp add: w_user_def w_admin_def db0_def has_role_def)
  have h2: "online w_user" by (simp add: w_user_def w_admin_def)
  from non_admin_create_delete [OF h1 h2, of _ "''t1''"] h1 h2 show ?thesis by blast
qed

text \<open>
  Claim C2 as stated fails for the delete: the plain user \<open>u1\<close> sends the delete of the
  track \<open>t1\<close>; the response carries no error (and the handler shows "Track deleted"),
  while the row is still there.
\<close>

theorem non_admin_delete_no_error:
  "\<not> has_role (user_roles (db w_user)) (session w_user) Admin
   \<and> fst (request_delete_track ''t1'' w_user) = None
   \<and> map title (toasts (handleDeleteTrack ''t1'' w_user)) = [''Track deleted'']
   \<and> map t_id (tracks (db (handleDeleteTrack ''t1'' w_user))) = [''t1'']"
  by (simp add: handleDeleteTrack_def request_delete_track_def delete_from_tracks_def
      fetchTracks_def show_toast_def sent_def has_role_def Let_def w_user_def w_admin_def db0_def)

section \<open>Merging a change into the preference map\<close>

text \<open>
  Claim C6. For a signed-in user that exists in \<open>auth.users\<close> and a reachable backend:
  after \<open>handleVolumeChange\<close> the stored document is the new map of the component, which
  agrees with the previous map on every other track and holds, for the changed track, the
  new volume with the previous \<open>enabled\<close> (true when the track had no entry). After
  \<open>handleEnabledChange\<close> likewise, with the new \<open>enabled\<close> and the previous volume (50
  when the track had no entry).
\<close>

theorem preference_merge:
  assumes "session w = Some uid" "online w" "uid \<in> set (map au_id (auth_users (db w)))"
  shows "(let w' = handleVolumeChange tid v w; m = trackSettings w' in
            select_track_settings (Some uid) uid (db w') = Some (Some m)
          \<and> (\<forall>k. k \<noteq> tid \<longrightarrow> m k = trackSettings w k)
          \<and> m tid = Some \<lparr>volume = v,
                enabled = (case trackSettings w tid of None \<Rightarrow> True | Some e \<Rightarrow> enabled e)\<rparr>)
       \<and> (let w' = handleEnabledChange tid b w; m = trackSettings w' in
            select_track_settings (Some uid) uid (db w') = Some (Some m)
          \<and> (\<forall>k. k \<noteq> tid \<longrightarrow> m k = trackSettings w k)
          \<and> m tid = Some \<lparr>volume = (case trackSettings w tid of None \<Rightarrow> 50 | Some e \<Rightarrow> volume e),
                enabled = b\<rparr>)"
  by (simp add: Let_def stored_after_save [OF assms] merge_volume_def merge_enabled_def)

theorem preference_merge_witness:
  "session w_user = Some ''u1'' \<and> online w_user
   \<and> ''u1'' \<in> set (map au_id (auth_users (db w_user)))
   \<and> trackSettings (handleVolumeChange ''t1'' 30 w_user) ''t1''
       = Some \<lparr>volume = 30, enabled = True\<rparr>
   \<and> trackSettings (handleEnabledChange ''t1'' False w_user) ''t1''
       = Some \<lparr>volume = 50, enabled = False\<rparr>
   \<and> select_track_settings (Some ''u1'') ''u1'' (db (handleVolumeChange ''t1'' 30 w_user))
       = Some (Some (trackSettings (handleVolumeChange ''t1'' 30 w_user)))"
proof -
  have h1: "session w_user = Some ''u1''" by (simp add: w_user_def w_admin_def)
  have h2: "online w_user" by (simp add: w_user_def w_admin_def)
  have h3: "''u1'' \<in> set (map au_id (auth_users (db w_user)))"
    by (simp add: w_user_def w_admin_def db0_def)
  have h4: "trackSettings w_user ''t1'' = None" by (simp add: w_user_def w_admin_def)
  from preference_merge [OF h1 h2 h3, of "''t1''" 30 False] h1 h2 h3 h4
  show ?thesis by (simp add: Let_def)
qed

section \<open>Tracks without an entry\<close>






section \<open>Playback follows the control\<close>











section \<open>Rendering a track without an entry\<close>




lemma savePreferences_auth_users [simp]:
  "auth_users (db (savePreferences m w)) = auth_users (db w)"
  by (simp add: savePreferences_def upsert_user_preferences_def console_error_def Let_def
      split: option.splits)








end
